theory Spec2Isabelle
  imports Main
begin

section \<open>Players and games: the request schemas and routes of \<open>callback/fastapi.py\<close>\<close>

text \<open>
  The development embeds the three mutating routes of \<open>callback/fastapi.py\<close>
  (\<open>/new_player\<close>, \<open>/new_game\<close>, \<open>/add_player_to_game\<close>), the pydantic schemas
  that validate their bodies, and the two tables of \<open>callback/models.py\<close> with the
  many-to-many table between them.

  Conventions.
  \<^item> A Python \<open>str\<close> is a \<open>string\<close>; one \<open>char\<close> stands for one code point below 256,
    so \<open>length\<close> is Python's \<open>len\<close> on such strings.
  \<^item> Primary keys and the integers of a request body are \<open>int\<close>.
  \<^item> The database is an explicit \<open>store\<close> passed through every function.
  \<^item> An exception is a value: a validator returns \<open>reason + 'a\<close>, a route returns a
    \<open>response\<close> together with the store it leaves behind.
  \<^item> The clock read by \<open>auto_now\<close> and \<open>auto_now_add\<close> is the argument \<open>now\<close>.
\<close>

subsection \<open>The pattern of \<open>validate_email\<close>\<close>

text \<open>
  \<open>pattern = r'^[\w\.-]+@[\w\.-]+\.\w+$'\<close>, used as \<open>re.match(pattern, email)\<close>.
  The pattern is a value of \<open>rexp\<close>; matching is by derivatives.
\<close>

datatype rexp =
    Zero
  | One
  | Atom "char \<Rightarrow> bool"
  | Alt rexp rexp
  | Seq rexp rexp
  | Star rexp

fun nullable :: "rexp \<Rightarrow> bool" where
  "nullable Zero = False"
| "nullable One = True"
| "nullable (Atom P) = False"
| "nullable (Alt r s) = (nullable r \<or> nullable s)"
| "nullable (Seq r s) = (nullable r \<and> nullable s)"
| "nullable (Star r) = True"

fun deriv :: "char \<Rightarrow> rexp \<Rightarrow> rexp" where
  "deriv c Zero = Zero"
| "deriv c One = Zero"
| "deriv c (Atom P) = (if P c then One else Zero)"
| "deriv c (Alt r s) = Alt (deriv c r) (deriv c s)"
| "deriv c (Seq r s) =
     (if nullable r then Alt (Seq (deriv c r) s) (deriv c s) else Seq (deriv c r) s)"
| "deriv c (Star r) = Seq (deriv c r) (Star r)"

fun fullmatch :: "rexp \<Rightarrow> string \<Rightarrow> bool" where
  "fullmatch r [] = nullable r"
| "fullmatch r (c # cs) = fullmatch (deriv c r) cs"

definition Plus :: "rexp \<Rightarrow> rexp" where
  "Plus r = Seq r (Star r)"

text \<open>
  \<open>\w\<close> on a \<open>str\<close> pattern: the alphanumeric code points and the underscore. Below 256
  these are the digits, the ASCII letters, \<open>_\<close>, and the Latin-1 letters and digits
  at 170, 178, 179, 181, 185, 186, 188 to 190, 192 to 214, 216 to 246 and 248 to 255.
\<close>

definition word_char :: "char \<Rightarrow> bool" where
  "word_char c =
     (let n = (of_char c :: nat) in
        (48 \<le> n \<and> n \<le> 57) \<or> (65 \<le> n \<and> n \<le> 90) \<or> n = 95 \<or> (97 \<le> n \<and> n \<le> 122) \<or>
        n = 170 \<or> n = 178 \<or> n = 179 \<or> n = 181 \<or> n = 185 \<or> n = 186 \<or>
        (188 \<le> n \<and> n \<le> 190) \<or> (192 \<le> n \<and> n \<le> 214) \<or> (216 \<le> n \<and> n \<le> 246) \<or>
        248 \<le> n)"

text \<open>The class \<open>[\w\.-]\<close>.\<close>

definition word_dot_dash :: "char \<Rightarrow> bool" where
  "word_dot_dash c = (word_char c \<or> c = CHR ''.'' \<or> c = CHR ''-'')"

definition pattern :: rexp where
  "pattern =
     Seq (Plus (Atom word_dot_dash))
       (Seq (Atom (\<lambda>c. c = CHR ''@''))
         (Seq (Plus (Atom word_dot_dash))
           (Seq (Atom (\<lambda>c. c = CHR ''.''))
             (Plus (Atom word_char)))))"

text \<open>
  \<open>re.match\<close> anchors at the start, which is what \<open>^\<close> asks for too. Without
  \<open>re.MULTILINE\<close> the final \<open>$\<close> holds at the end of the string and also just before
  a newline that is the last character of the string.
\<close>

definition re_match :: "rexp \<Rightarrow> string \<Rightarrow> bool" where
  "re_match r s =
     (fullmatch r s \<or> (s \<noteq> [] \<and> last s = CHR 0x0A \<and> fullmatch r (butlast s)))"

subsection \<open>The tables of \<open>callback/models.py\<close>\<close>

record player =
  player_pk :: int
  player_name :: string
  player_email :: string
  player_created_at :: nat
  player_updated_at :: nat

record game =
  game_pk :: int
  game_name :: string
  game_created_at :: nat
  game_updated_at :: nat

text \<open>
  \<open>Game.players\<close> is a \<open>ManyToManyField\<close>: its rows live in a table of their own, one
  pair (game, player) per membership, and not in the row of the game. The two
  counters are the sequences from which the database assigns primary keys.
\<close>

record store =
  players :: "player list"
  games :: "game list"
  game_players :: "(int \<times> int) list"
  next_player_pk :: int
  next_game_pk :: int

definition empty_store :: store where
  "empty_store =
     \<lparr>players = [], games = [], game_players = [], next_player_pk = 1, next_game_pk = 1\<rparr>"

text \<open>
  \<open>Model.objects.get(...)\<close>: the row that satisfies the lookup, or \<open>DoesNotExist\<close>
  (here \<open>None\<close>). Every lookup of the source is on the primary key or on a column
  declared \<open>unique=True\<close>, so at most one row can satisfy it.
\<close>

definition Player_objects_get :: "(player \<Rightarrow> bool) \<Rightarrow> store \<Rightarrow> player option" where
  "Player_objects_get P s = find P (players s)"

definition Game_objects_get :: "(game \<Rightarrow> bool) \<Rightarrow> store \<Rightarrow> game option" where
  "Game_objects_get P s = find P (games s)"

text \<open>
  The primary keys of \<open>game.players\<close>, as \<open>values_list('pk', flat=True)\<close> lists them.
  Every row of the many-to-many table refers to a player, so the rows of a game are
  its players.
\<close>

definition players_pks :: "store \<Rightarrow> int \<Rightarrow> int list" where
  "players_pks s gpk = map snd (filter (\<lambda>e. fst e = gpk) (game_players s))"

text \<open>\<open>game.players.count()\<close>.\<close>

definition players_count :: "store \<Rightarrow> int \<Rightarrow> nat" where
  "players_count s gpk = length (players_pks s gpk)"

datatype db_error = IntegrityError

text \<open>
  \<open>Player(name=..., email=...).save()\<close>: an insert. Both columns are \<open>unique=True\<close>,
  so the database refuses a second row with the same name or the same email.
  \<open>created_at\<close> is \<open>auto_now_add\<close> and \<open>updated_at\<close> is \<open>auto_now\<close>: both are set
  to the time of the save.
\<close>

definition Player_save :: "nat \<Rightarrow> string \<Rightarrow> string \<Rightarrow> store \<Rightarrow> db_error + (int \<times> store)" where
  "Player_save now name email s =
     (if name \<in> set (map player_name (players s)) \<or> email \<in> set (map player_email (players s))
      then Inl IntegrityError
      else Inr (next_player_pk s,
        s\<lparr>players := players s @
             [\<lparr>player_pk = next_player_pk s, player_name = name, player_email = email,
               player_created_at = now, player_updated_at = now\<rparr>],
          next_player_pk := next_player_pk s + 1\<rparr>))"

text \<open>\<open>Game().save()\<close> after \<open>new_game.name = ...\<close>: an insert, with no unique column.\<close>

definition Game_save :: "nat \<Rightarrow> string \<Rightarrow> store \<Rightarrow> int \<times> store" where
  "Game_save now name s =
     (next_game_pk s,
      s\<lparr>games := games s @
           [\<lparr>game_pk = next_game_pk s, game_name = name,
             game_created_at = now, game_updated_at = now\<rparr>],
        next_game_pk := next_game_pk s + 1\<rparr>)"

text \<open>
  \<open>game.players.add(player_id)\<close>: inserts the pair into the many-to-many table unless it
  is there already; the new row refers to a player, so the database refuses it when
  no player has that primary key. The row of the game is not saved, so its
  \<open>updated_at\<close> stays.
\<close>

definition players_add :: "int \<Rightarrow> int \<Rightarrow> store \<Rightarrow> db_error + store" where
  "players_add gpk ppk s =
     (if (gpk, ppk) \<in> set (game_players s) then Inr s
      else if ppk \<notin> set (map player_pk (players s)) then Inl IntegrityError
      else Inr (s\<lparr>game_players := game_players s @ [(gpk, ppk)]\<rparr>))"

subsection \<open>The schemas and their validators\<close>

text \<open>
  The reasons a request body is refused. The first two are pydantic's own check of
  \<open>Field(..., max_length=54)\<close>; the others are the \<open>ValueError\<close>s the validators raise.
\<close>

datatype reason =
    NameTooLong
  | EmailTooLong
  | InvalidNameCharset
  | DuplicateName
  | InvalidEmailFormat
  | DuplicateEmail
  | PlayerNotFound
  | GameNotFound
  | GameFull
  | AlreadyMember

text \<open>The text of each error, \<open>error["msg"]\<close> in the exception handler.\<close>

fun msg :: "reason \<Rightarrow> string" where
  "msg NameTooLong = ''ensure this value has at most 54 characters''"
| "msg EmailTooLong = ''ensure this value has at most 54 characters''"
| "msg InvalidNameCharset =
     ''Invalid characters in name. Only digits 0-9 and letters a-f are allowed.''"
| "msg DuplicateName = ''Player item with this name already exists''"
| "msg InvalidEmailFormat = ''Email is not valid''"
| "msg DuplicateEmail = ''Player item with this email already exists''"
| "msg PlayerNotFound = ''Player does not exists''"
| "msg GameNotFound = ''Game does not exists''"
| "msg GameFull = ''Game has not more than 5 players''"
| "msg AlreadyMember = ''Player already in this game''"

definition allowed_chars :: "char set" where
  "allowed_chars = set ''0123456789abcdef''"

definition validate_name :: "store \<Rightarrow> string \<Rightarrow> reason + string" where
  "validate_name s name =
     (if \<not> set name \<subseteq> allowed_chars then Inl InvalidNameCharset
      else case Player_objects_get (\<lambda>p. player_name p = name) s of
             None \<Rightarrow> Inr name
           | Some p \<Rightarrow> Inl DuplicateName)"

definition validate_email :: "store \<Rightarrow> string \<Rightarrow> reason + string" where
  "validate_email s email =
     (if \<not> re_match pattern email then Inl InvalidEmailFormat
      else case Player_objects_get (\<lambda>p. player_email p = email) s of
             None \<Rightarrow> Inr email
           | Some p \<Rightarrow> Inl DuplicateEmail)"

text \<open>
  A field of a pydantic model: the constraint of \<open>Field\<close> is checked first, and the
  function decorated with \<open>@validator\<close> runs only on a value that passed it.
\<close>

definition name_field :: "store \<Rightarrow> string \<Rightarrow> reason + string" where
  "name_field s name = (if length name > 54 then Inl NameTooLong else validate_name s name)"

definition email_field :: "store \<Rightarrow> string \<Rightarrow> reason + string" where
  "email_field s email = (if length email > 54 then Inl EmailTooLong else validate_email s email)"

definition errors_of :: "reason + 'a \<Rightarrow> reason list" where
  "errors_of r = (case r of Inl e \<Rightarrow> [e] | Inr v \<Rightarrow> [])"

text \<open>
  \<open>CreatePlayerItem\<close>: pydantic validates the fields in the order of their declaration
  and collects the error of every field that fails; the model is built only when
  there is none.
\<close>

definition CreatePlayerItem_errors :: "store \<Rightarrow> string \<Rightarrow> string \<Rightarrow> reason list" where
  "CreatePlayerItem_errors s name email =
     errors_of (name_field s name) @ errors_of (email_field s email)"

definition CreatePlayerItem :: "store \<Rightarrow> string \<Rightarrow> string \<Rightarrow> reason list + (string \<times> string)" where
  "CreatePlayerItem s name email =
     (if CreatePlayerItem_errors s name email = [] then Inr (name, email)
      else Inl (CreatePlayerItem_errors s name email))"

text \<open>\<open>GameItem\<close> has one field, a \<open>str\<close> with no constraint and no validator.\<close>

definition GameItem :: "string \<Rightarrow> reason list + string" where
  "GameItem name = Inr name"

definition validate_player_id :: "store \<Rightarrow> int \<Rightarrow> reason + int" where
  "validate_player_id s player_id =
     (case Player_objects_get (\<lambda>p. player_pk p = player_id) s of
        None \<Rightarrow> Inl PlayerNotFound
      | Some p \<Rightarrow> Inr player_id)"

text \<open>
  \<open>validate_game_id\<close> is a \<open>@root_validator\<close>: it receives \<open>values\<close>, the fields that
  passed. \<open>game_id\<close> has no validator and is always there; \<open>values.get('player_id')\<close>
  is \<open>None\<close> when \<open>validate_player_id\<close> raised, and \<open>None\<close> is in no list of
  primary keys.
\<close>

definition validate_game_id :: "store \<Rightarrow> int \<times> int option \<Rightarrow> reason + (int \<times> int option)" where
  "validate_game_id s values =
     (let player_id = snd values; game_id = fst values in
      case Game_objects_get (\<lambda>g. game_pk g = game_id) s of
        None \<Rightarrow> Inl GameNotFound
      | Some game \<Rightarrow>
          if players_count s (game_pk game) > 4 then Inl GameFull
          else if (case player_id of None \<Rightarrow> False
                   | Some p \<Rightarrow> p \<in> set (players_pks s (game_pk game)))
          then Inl AlreadyMember
          else Inr values)"

text \<open>
  \<open>AddingPlayerInGame\<close>: the field validators run first, in the order of the
  declaration. The root validator is declared without \<open>skip_on_failure\<close>, so
  pydantic runs it also when a field has failed, and adds its error to the others.
\<close>

definition AddingPlayerInGame_errors :: "store \<Rightarrow> int \<Rightarrow> int \<Rightarrow> reason list" where
  "AddingPlayerInGame_errors s game_id player_id =
     (let field = validate_player_id s player_id;
          values = (game_id, case field of Inl e \<Rightarrow> None | Inr p \<Rightarrow> Some p)
      in errors_of field @ errors_of (validate_game_id s values))"

definition AddingPlayerInGame :: "store \<Rightarrow> int \<Rightarrow> int \<Rightarrow> reason list + (int \<times> int)" where
  "AddingPlayerInGame s game_id player_id =
     (if AddingPlayerInGame_errors s game_id player_id = [] then Inr (game_id, player_id)
      else Inl (AddingPlayerInGame_errors s game_id player_id))"

subsection \<open>The routes\<close>

datatype response =
    Success int
  | Bad_Request "(string \<times> string) list"
  | Unauthenticated
  | Internal_Server_Error

text \<open>
  \<open>Success pk\<close> is the \<open>JSONResponse\<close> with \<open>"status": "success"\<close> and \<open>"id": pk\<close>;
  \<open>Bad_Request\<close> is the answer of \<open>validation_exception_handler\<close>, one pair of
  \<open>"status"\<close> and \<open>"text"\<close> for each error; \<open>Unauthenticated\<close> is the answer of
  \<open>authjwt_exception_handler\<close>; \<open>Internal_Server_Error\<close> is what the framework answers
  when the route raises an exception that has no handler.
\<close>

definition validation_exception_handler :: "reason list \<Rightarrow> response" where
  "validation_exception_handler details = Bad_Request (map (\<lambda>error. (''error'', msg error)) details)"

text \<open>
  In each route the argument \<open>jwt\<close> says whether \<open>Authorize.jwt_required()\<close> returns
  (a valid token is in the request) or raises an \<open>AuthJWTException\<close> (no token, or
  a token that does not verify or has expired). The routes start where the framework
  has built the \<open>AuthJWT\<close> dependency from the headers of the request.
\<close>

definition create_new_player :: "bool \<Rightarrow> nat \<Rightarrow> string \<times> string \<Rightarrow> store \<Rightarrow> response \<times> store" where
  "create_new_player jwt now player s =
     (if \<not> jwt then (Unauthenticated, s)
      else case Player_save now (fst player) (snd player) s of
             Inl e \<Rightarrow> (Internal_Server_Error, s)
           | Inr (pk, s') \<Rightarrow> (Success pk, s'))"

definition create_new_game :: "bool \<Rightarrow> nat \<Rightarrow> string \<Rightarrow> store \<Rightarrow> response \<times> store" where
  "create_new_game jwt now name s =
     (if \<not> jwt then (Unauthenticated, s)
      else case Game_save now name s of (pk, s') \<Rightarrow> (Success pk, s'))"

definition add_player_to_game :: "bool \<Rightarrow> int \<times> int \<Rightarrow> store \<Rightarrow> response \<times> store" where
  "add_player_to_game jwt request_data s =
     (if \<not> jwt then (Unauthenticated, s)
      else case Game_objects_get (\<lambda>g. game_pk g = fst request_data) s of
             None \<Rightarrow> (Internal_Server_Error, s)
           | Some game \<Rightarrow>
               (case players_add (game_pk game) (snd request_data) s of
                  Inl e \<Rightarrow> (Internal_Server_Error, s)
                | Inr s' \<Rightarrow> (Success (fst request_data), s')))"

text \<open>
  A request to a route. The framework builds the body parameter from the schema
  before it calls the function of the route: when the schema refuses the body, the
  function is not called and \<open>validation_exception_handler\<close> answers. The call of
  \<open>Authorize.jwt_required()\<close> is the first statement of the function, so it comes
  after the validation of the body.
\<close>

definition post_new_player :: "bool \<Rightarrow> nat \<Rightarrow> string \<Rightarrow> string \<Rightarrow> store \<Rightarrow> response \<times> store" where
  "post_new_player jwt now name email s =
     (case CreatePlayerItem s name email of
        Inl details \<Rightarrow> (validation_exception_handler details, s)
      | Inr player \<Rightarrow> create_new_player jwt now player s)"

definition post_new_game :: "bool \<Rightarrow> nat \<Rightarrow> string \<Rightarrow> store \<Rightarrow> response \<times> store" where
  "post_new_game jwt now name s =
     (case GameItem name of
        Inl details \<Rightarrow> (validation_exception_handler details, s)
      | Inr game \<Rightarrow> create_new_game jwt now game s)"

definition post_add_player_to_game :: "bool \<Rightarrow> int \<Rightarrow> int \<Rightarrow> store \<Rightarrow> response \<times> store" where
  "post_add_player_to_game jwt game_id player_id s =
     (case AddingPlayerInGame s game_id player_id of
        Inl details \<Rightarrow> (validation_exception_handler details, s)
      | Inr request_data \<Rightarrow> add_player_to_game jwt request_data s)"

subsection \<open>Sequences of requests\<close>

datatype command =
    CreatePlayer string string
  | CreateGame string
  | AddMemberToGame int int

text \<open>The reasons for which the schema of a command refuses its body.\<close>

fun validation_errors :: "store \<Rightarrow> command \<Rightarrow> reason list" where
  "validation_errors s (CreatePlayer name email) = CreatePlayerItem_errors s name email"
| "validation_errors s (CreateGame name) = []"
| "validation_errors s (AddMemberToGame game_id player_id) =
     AddingPlayerInGame_errors s game_id player_id"

fun request :: "bool \<Rightarrow> nat \<Rightarrow> command \<Rightarrow> store \<Rightarrow> response \<times> store" where
  "request jwt now (CreatePlayer name email) s = post_new_player jwt now name email s"
| "request jwt now (CreateGame name) s = post_new_game jwt now name s"
| "request jwt now (AddMemberToGame game_id player_id) s =
     post_add_player_to_game jwt game_id player_id s"

text \<open>Requests served one after the other; each comes with its token check and its time.\<close>

fun serve :: "(bool \<times> nat \<times> command) list \<Rightarrow> store \<Rightarrow> store" where
  "serve [] s = s"
| "serve ((jwt, now, c) # rs) s = serve rs (snd (request jwt now c s))"

text \<open>
  The invariant of the member sets: no game has more than five members and no
  player is in the members of a game twice.
\<close>

definition members_ok :: "store \<Rightarrow> bool" where
  "members_ok s =
     (\<forall>gpk \<in> set (map fst (game_players s)).
        players_count s gpk \<le> 5 \<and> distinct (players_pks s gpk))"

subsection \<open>Example stores\<close>

text \<open>
  Six players and the game \<open>Cup\<close> with four of them, and the requests that build this
  store from the empty one.
\<close>

definition four_of_six :: "(bool \<times> nat \<times> command) list" where
  "four_of_six =
     [(True, 1, CreatePlayer ''a1'' ''a1@x.io''),
      (True, 2, CreatePlayer ''a2'' ''a2@x.io''),
      (True, 3, CreatePlayer ''a3'' ''a3@x.io''),
      (True, 4, CreatePlayer ''a4'' ''a4@x.io''),
      (True, 5, CreatePlayer ''a5'' ''a5@x.io''),
      (True, 5, CreatePlayer ''a6'' ''a6@x.io''),
      (True, 6, CreateGame ''Cup''),
      (True, 7, AddMemberToGame 1 1),
      (True, 7, AddMemberToGame 1 2),
      (True, 8, AddMemberToGame 1 3),
      (True, 9, AddMemberToGame 1 4)]"

definition cup4 :: store where
  "cup4 =
     \<lparr>players =
        [\<lparr>player_pk = 1, player_name = ''a1'', player_email = ''a1@x.io'',
          player_created_at = 1, player_updated_at = 1\<rparr>,
         \<lparr>player_pk = 2, player_name = ''a2'', player_email = ''a2@x.io'',
          player_created_at = 2, player_updated_at = 2\<rparr>,
         \<lparr>player_pk = 3, player_name = ''a3'', player_email = ''a3@x.io'',
          player_created_at = 3, player_updated_at = 3\<rparr>,
         \<lparr>player_pk = 4, player_name = ''a4'', player_email = ''a4@x.io'',
          player_created_at = 4, player_updated_at = 4\<rparr>,
         \<lparr>player_pk = 5, player_name = ''a5'', player_email = ''a5@x.io'',
          player_created_at = 5, player_updated_at = 5\<rparr>,
         \<lparr>player_pk = 6, player_name = ''a6'', player_email = ''a6@x.io'',
          player_created_at = 5, player_updated_at = 5\<rparr>],
      games = [\<lparr>game_pk = 1, game_name = ''Cup'', game_created_at = 6, game_updated_at = 6\<rparr>],
      game_players = [(1, 1), (1, 2), (1, 3), (1, 4)],
      next_player_pk = 7, next_game_pk = 2\<rparr>"

text \<open>The same store once player 5 has joined the game.\<close>

definition cup5 :: store where
  "cup5 = cup4\<lparr>game_players := game_players cup4 @ [(1, 5)]\<rparr>"

section \<open>Properties\<close>

subsection \<open>Unfolding and evaluation\<close>

lemmas schema_defs =
  CreatePlayerItem_def CreatePlayerItem_errors_def name_field_def email_field_def
  validate_name_def validate_email_def allowed_chars_def
  AddingPlayerInGame_def AddingPlayerInGame_errors_def validate_player_id_def
  validate_game_id_def GameItem_def errors_of_def
  Player_objects_get_def Game_objects_get_def players_pks_def players_count_def
  re_match_def pattern_def Plus_def word_dot_dash_def word_char_def

lemmas route_defs =
  post_new_player_def post_new_game_def post_add_player_to_game_def
  create_new_player_def create_new_game_def add_player_to_game_def
  Player_save_def Game_save_def players_add_def validation_exception_handler_def

text \<open>The pattern on a few addresses, the last one with the newline that \<open>$\<close> lets through.\<close>

lemma pattern_examples:
  "re_match pattern ''a@b.com''"
  "re_match pattern ''first.last-x@mail.example.org''"
  "\<not> re_match pattern ''a@b''"
  "\<not> re_match pattern ''a@.b''"
  "\<not> re_match pattern ''a@b@c.d''"
  "\<not> re_match pattern ''a b@c.d''"
  "\<not> re_match pattern []"
  "re_match pattern (''a@b.com'' @ [CHR 0x0A])"
  "\<not> re_match pattern (''a@b.com'' @ [CHR 0x0A, CHR 0x0A])"
  by (simp_all add: re_match_def pattern_def Plus_def word_dot_dash_def word_char_def)

text \<open>The example store is what the example requests leave behind.\<close>

lemma cup4_reached: "serve four_of_six empty_store = cup4"
  by (simp add: four_of_six_def empty_store_def cup4_def schema_defs route_defs)

text \<open>
  The scenario of the specification: a player, a second player with the same name, a
  game, the player joins, the player joins again.
\<close>

lemma scenario:
  "fst (request True 1 (CreatePlayer ''deadbeef'' ''a@b.com'') empty_store) = Success 1"
  "fst (request True 2 (CreatePlayer ''deadbeef'' ''c@d.com'')
     (serve [(True, 1, CreatePlayer ''deadbeef'' ''a@b.com'')] empty_store)) =
   validation_exception_handler [DuplicateName]"
  "fst (request True 3 (CreateGame ''Cup'')
     (serve [(True, 1, CreatePlayer ''deadbeef'' ''a@b.com'')] empty_store)) = Success 1"
  "fst (request True 4 (AddMemberToGame 1 1)
     (serve [(True, 1, CreatePlayer ''deadbeef'' ''a@b.com''), (True, 3, CreateGame ''Cup'')]
        empty_store)) = Success 1"
  "fst (request True 5 (AddMemberToGame 1 1)
     (serve [(True, 1, CreatePlayer ''deadbeef'' ''a@b.com''), (True, 3, CreateGame ''Cup''),
             (True, 4, AddMemberToGame 1 1)] empty_store)) =
   validation_exception_handler [AlreadyMember]"
  by (simp_all add: empty_store_def schema_defs route_defs)

subsection \<open>Lookups and schemas\<close>

lemma Player_objects_get_None:
  "(Player_objects_get P s = None) = (\<forall>p \<in> set (players s). \<not> P p)"
  by (auto simp: Player_objects_get_def find_None_iff)

lemma Game_objects_get_Some:
  "Game_objects_get P s = Some g \<Longrightarrow> P g \<and> g \<in> set (games s)"
  by (auto simp: Game_objects_get_def find_Some_iff)

lemma errors_of_simps [simp]:
  "errors_of (Inl e) = [e]" "errors_of (Inr v) = []"
  by (simp_all add: errors_of_def)

lemma errors_of_Nil: "(errors_of r = []) = (\<exists>v. r = Inr v)"
  by (cases r) simp_all

text \<open>What the schema of /add_player_to_game reports, check by check.\<close>

lemma AddingPlayerInGame_errors_eq:
  "AddingPlayerInGame_errors s game_id player_id =
     (if Player_objects_get (\<lambda>p. player_pk p = player_id) s = None then [PlayerNotFound] else []) @
     (if Game_objects_get (\<lambda>g. game_pk g = game_id) s = None then [GameNotFound]
      else if players_count s game_id > 4 then [GameFull]
      else if Player_objects_get (\<lambda>p. player_pk p = player_id) s \<noteq> None
              \<and> player_id \<in> set (players_pks s game_id) then [AlreadyMember]
      else [])"
  by (auto simp: AddingPlayerInGame_errors_def validate_player_id_def validate_game_id_def
        Let_def split: option.splits dest!: Game_objects_get_Some)

subsection \<open>The invariant of the member sets\<close>

lemma members_ok_iff:
  "members_ok s = (\<forall>gpk. players_count s gpk \<le> 5 \<and> distinct (players_pks s gpk))"
proof
  assume ok: "members_ok s"
  show "\<forall>gpk. players_count s gpk \<le> 5 \<and> distinct (players_pks s gpk)"
  proof
    fix gpk
    show "players_count s gpk \<le> 5 \<and> distinct (players_pks s gpk)"
    proof (cases "gpk \<in> set (map fst (game_players s))")
      case True
      with ok show ?thesis by (auto simp: members_ok_def)
    next
      case False
      then have "filter (\<lambda>e. fst e = gpk) (game_players s) = []"
        by (auto simp: filter_empty_conv)
      then show ?thesis by (simp add: players_count_def players_pks_def)
    qed
  qed
next
  assume "\<forall>gpk. players_count s gpk \<le> 5 \<and> distinct (players_pks s gpk)"
  then show "members_ok s" by (simp add: members_ok_def)
qed

lemma players_pks_cong:
  "game_players s' = game_players s \<Longrightarrow> players_pks s' gpk = players_pks s gpk"
  by (simp add: players_pks_def)

lemma members_ok_cong:
  "game_players s' = game_players s \<Longrightarrow> members_ok s' = members_ok s"
  by (simp add: members_ok_iff players_count_def players_pks_def)

lemma mem_players_pks: "(p \<in> set (players_pks s g)) = ((g, p) \<in> set (game_players s))"
  by (force simp: players_pks_def)

lemma players_pks_append:
  "players_pks (s\<lparr>game_players := game_players s @ [(g, p)]\<rparr>) gpk =
     (if gpk = g then players_pks s gpk @ [p] else players_pks s gpk)"
  by (simp add: players_pks_def)

lemma game_players_create_new_player:
  "game_players (snd (create_new_player jwt now player s)) = game_players s"
  by (auto simp: create_new_player_def Player_save_def split: sum.splits prod.splits)

lemma game_players_create_new_game:
  "game_players (snd (create_new_game jwt now name s)) = game_players s"
  by (simp add: create_new_game_def Game_save_def)

lemma members_ok_add_player_to_game:
  assumes ok: "members_ok s" and room: "players_count s (fst request_data) \<le> 4"
  shows "members_ok (snd (add_player_to_game jwt request_data s))"
proof (cases "fst (add_player_to_game jwt request_data s)")
  case (Success pk)
  obtain g p where rd: "request_data = (g, p)" by (cases request_data)
  from Success rd obtain game where
    game: "Game_objects_get (\<lambda>x. game_pk x = g) s = Some game"
    by (auto simp: add_player_to_game_def split: if_splits option.splits)
  then have pk: "game_pk game = g" by (auto dest: Game_objects_get_Some)
  show ?thesis
  proof (cases "(g, p) \<in> set (game_players s)")
    case True
    with Success rd game pk ok show ?thesis
      by (auto simp: add_player_to_game_def players_add_def split: if_splits)
  next
    case False
    then have new: "p \<notin> set (players_pks s g)" by (simp add: mem_players_pks)
    from Success rd game pk False
    have s': "snd (add_player_to_game jwt request_data s) = s\<lparr>game_players := game_players s @ [(g, p)]\<rparr>"
      by (auto simp: add_player_to_game_def players_add_def split: if_splits)
    from ok room rd new show ?thesis
      unfolding s' members_ok_iff players_count_def players_pks_append by auto
  qed
next
  case (Bad_Request x)
  then show ?thesis
    by (auto simp: add_player_to_game_def players_add_def split: if_splits option.splits sum.splits)
next
  case Unauthenticated
  with ok show ?thesis
    by (auto simp: add_player_to_game_def players_add_def split: if_splits option.splits sum.splits)
next
  case Internal_Server_Error
  with ok show ?thesis
    by (auto simp: add_player_to_game_def players_add_def split: if_splits option.splits sum.splits)
qed

lemma members_ok_request:
  assumes ok: "members_ok s"
  shows "members_ok (snd (request jwt now c s))"
proof (cases c)
  case (CreatePlayer name email)
  with ok show ?thesis
    by (auto simp: post_new_player_def members_ok_cong [OF game_players_create_new_player]
          split: sum.splits)
next
  case (CreateGame name)
  with ok show ?thesis
    by (simp add: post_new_game_def GameItem_def members_ok_cong [OF game_players_create_new_game])
next
  case (AddMemberToGame game_id player_id)
  show ?thesis
  proof (cases "AddingPlayerInGame_errors s game_id player_id = []")
    case True
    then have "players_count s game_id \<le> 4"
      by (auto simp: AddingPlayerInGame_errors_eq split: if_splits)
    with ok True AddMemberToGame show ?thesis
      by (simp add: post_add_player_to_game_def AddingPlayerInGame_def
            members_ok_add_player_to_game)
  next
    case False
    with ok AddMemberToGame show ?thesis
      by (simp add: post_add_player_to_game_def AddingPlayerInGame_def)
  qed
qed

lemma members_ok_serve: "members_ok s \<Longrightarrow> members_ok (serve rs s)"
proof (induction rs arbitrary: s)
  case Nil
  then show ?case by simp
next
  case (Cons r rs)
  obtain jwt now c where r: "r = (jwt, now, c)" by (cases r)
  from Cons.prems have "members_ok (snd (request jwt now c s))"
    by (rule members_ok_request)
  then show ?case unfolding r by (simp add: Cons.IH)
qed

subsection \<open>The routes, accepted and refused bodies\<close>

lemma Player_objects_get_pk:
  "(Player_objects_get (\<lambda>p. player_pk p = pk) s = None) = (pk \<notin> set (map player_pk (players s)))"
  by (auto simp: Player_objects_get_None)

lemma Player_objects_get_name:
  "(Player_objects_get (\<lambda>p. player_name p = name) s = None) = (name \<notin> set (map player_name (players s)))"
  by (auto simp: Player_objects_get_None)

lemma Player_objects_get_email:
  "(Player_objects_get (\<lambda>p. player_email p = email) s = None) = (email \<notin> set (map player_email (players s)))"
  by (auto simp: Player_objects_get_None)

lemma name_field_eq:
  "name_field s name =
     (if length name > 54 then Inl NameTooLong
      else if \<not> set name \<subseteq> allowed_chars then Inl InvalidNameCharset
      else if name \<in> set (map player_name (players s)) then Inl DuplicateName
      else Inr name)"
  using Player_objects_get_name [of name s]
  by (auto simp: name_field_def validate_name_def split: option.splits)

lemma email_field_eq:
  "email_field s email =
     (if length email > 54 then Inl EmailTooLong
      else if \<not> re_match pattern email then Inl InvalidEmailFormat
      else if email \<in> set (map player_email (players s)) then Inl DuplicateEmail
      else Inr email)"
  using Player_objects_get_email [of email s]
  by (auto simp: email_field_def validate_email_def split: option.splits)

lemma CreatePlayerItem_errors_Nil:
  "(CreatePlayerItem_errors s name email = []) =
     (name_field s name = Inr name \<and> email_field s email = Inr email)"
  by (auto simp: CreatePlayerItem_errors_def name_field_eq email_field_eq)

lemma post_new_player_rejected:
  "CreatePlayerItem_errors s name email \<noteq> [] \<Longrightarrow>
   post_new_player jwt now name email s =
     (validation_exception_handler (CreatePlayerItem_errors s name email), s)"
  by (simp add: post_new_player_def CreatePlayerItem_def)

lemma post_new_player_accepted:
  "CreatePlayerItem_errors s name email = [] \<Longrightarrow>
   post_new_player jwt now name email s = create_new_player jwt now (name, email) s"
  by (simp add: post_new_player_def CreatePlayerItem_def)

lemma create_new_player_saves:
  assumes "name_field s name = Inr name" and "email_field s email = Inr email"
  shows "create_new_player True now (name, email) s =
     (Success (next_player_pk s),
      s\<lparr>players := players s @
           [\<lparr>player_pk = next_player_pk s, player_name = name, player_email = email,
             player_created_at = now, player_updated_at = now\<rparr>],
        next_player_pk := next_player_pk s + 1\<rparr>)"
proof -
  from assms(1) have "name \<notin> set (map player_name (players s))"
    by (simp add: name_field_eq split: if_splits)
  moreover from assms(2) have "email \<notin> set (map player_email (players s))"
    by (simp add: email_field_eq split: if_splits)
  ultimately show ?thesis
    by (simp add: create_new_player_def Player_save_def)
qed

lemma post_add_player_to_game_rejected:
  "AddingPlayerInGame_errors s game_id player_id \<noteq> [] \<Longrightarrow>
   post_add_player_to_game jwt game_id player_id s =
     (validation_exception_handler (AddingPlayerInGame_errors s game_id player_id), s)"
  by (simp add: post_add_player_to_game_def AddingPlayerInGame_def)

lemma post_add_player_to_game_accepted:
  "AddingPlayerInGame_errors s game_id player_id = [] \<Longrightarrow>
   post_add_player_to_game jwt game_id player_id s = add_player_to_game jwt (game_id, player_id) s"
  by (simp add: post_add_player_to_game_def AddingPlayerInGame_def)

lemma AddingPlayerInGame_errors_Nil:
  "(AddingPlayerInGame_errors s game_id player_id = []) =
     (player_id \<in> set (map player_pk (players s)) \<and>
      Game_objects_get (\<lambda>g. game_pk g = game_id) s \<noteq> None \<and>
      players_count s game_id \<le> 4 \<and>
      (game_id, player_id) \<notin> set (game_players s))"
  by (auto simp: AddingPlayerInGame_errors_eq Player_objects_get_pk mem_players_pks)

lemma add_player_to_game_adds:
  assumes "AddingPlayerInGame_errors s game_id player_id = []"
  shows "add_player_to_game True (game_id, player_id) s =
     (Success game_id, s\<lparr>game_players := game_players s @ [(game_id, player_id)]\<rparr>)"
proof -
  from assms obtain game where game: "Game_objects_get (\<lambda>g. game_pk g = game_id) s = Some game"
    by (auto simp: AddingPlayerInGame_errors_Nil)
  then have "game_pk game = game_id" by (auto dest: Game_objects_get_Some)
  with assms game show ?thesis
    by (simp add: AddingPlayerInGame_errors_Nil add_player_to_game_def players_add_def)
qed

lemma unauthenticated_handlers:
  "create_new_player False now player s = (Unauthenticated, s)"
  "create_new_game False now name s = (Unauthenticated, s)"
  "add_player_to_game False request_data s = (Unauthenticated, s)"
  by (simp_all add: create_new_player_def create_new_game_def add_player_to_game_def)



lemma post_add_player_to_game_Success:
  assumes "fst (post_add_player_to_game jwt game_id player_id s) = Success pk"
  shows "AddingPlayerInGame_errors s game_id player_id = [] \<and> jwt"
proof -
  have nil: "AddingPlayerInGame_errors s game_id player_id = []"
  proof (rule ccontr)
    assume "AddingPlayerInGame_errors s game_id player_id \<noteq> []"
    with assms show False
      by (simp add: post_add_player_to_game_rejected validation_exception_handler_def)
  qed
  moreover have jwt
  proof (rule ccontr)
    assume "\<not> jwt"
    with assms nil show False
      by (simp add: post_add_player_to_game_accepted unauthenticated_handlers)
  qed
  ultimately show ?thesis by simp
qed

section \<open>The claims\<close>

subsection \<open>C1\<close>




subsection \<open>C2\<close>

text \<open>
  Claim C2. When the player and the game exist, the schema refuses the body with
  \<open>GameFull\<close> exactly when the game has more than 4 members before the addition; a
  game with 4 members or fewer is never refused as full; and an addition that
  succeeds adds one member and leaves at most 5.
\<close>

theorem game_full_boundary:
  assumes "Player_objects_get (\<lambda>p. player_pk p = player_id) s \<noteq> None"
      and "Game_objects_get (\<lambda>g. game_pk g = game_id) s \<noteq> None"
  shows "((AddingPlayerInGame_errors s game_id player_id = [GameFull]) = (players_count s game_id > 4)) \<and>
         (players_count s game_id \<le> 4 \<longrightarrow>
            GameFull \<notin> set (AddingPlayerInGame_errors s game_id player_id)) \<and>
         (fst (post_add_player_to_game jwt game_id player_id s) = Success game_id \<longrightarrow>
            players_count (snd (post_add_player_to_game jwt game_id player_id s)) game_id
              = players_count s game_id + 1 \<and>
            players_count (snd (post_add_player_to_game jwt game_id player_id s)) game_id \<le> 5)"
proof (intro conjI impI)
  from assms show "(AddingPlayerInGame_errors s game_id player_id = [GameFull]) = (players_count s game_id > 4)"
    by (auto simp: AddingPlayerInGame_errors_eq)
next
  assume "players_count s game_id \<le> 4"
  then show "GameFull \<notin> set (AddingPlayerInGame_errors s game_id player_id)"
    by (simp add: AddingPlayerInGame_errors_eq)
next
  assume ok: "fst (post_add_player_to_game jwt game_id player_id s) = Success game_id"
  have nil: "AddingPlayerInGame_errors s game_id player_id = []"
  proof (rule ccontr)
    assume "AddingPlayerInGame_errors s game_id player_id \<noteq> []"
    with ok show False
      by (simp add: post_add_player_to_game_rejected validation_exception_handler_def)
  qed
  have jwt: jwt
  proof (rule ccontr)
    assume "\<not> jwt"
    with ok nil show False
      by (simp add: post_add_player_to_game_accepted unauthenticated_handlers)
  qed
  from nil have room: "players_count s game_id \<le> 4"
    by (simp add: AddingPlayerInGame_errors_Nil)
  from nil jwt have s': "post_add_player_to_game jwt game_id player_id s =
      (Success game_id, s\<lparr>game_players := game_players s @ [(game_id, player_id)]\<rparr>)"
    by (simp add: post_add_player_to_game_accepted add_player_to_game_adds)
  show "players_count (snd (post_add_player_to_game jwt game_id player_id s)) game_id
          = players_count s game_id + 1"
    by (simp add: s' players_count_def players_pks_append)
  with room show "players_count (snd (post_add_player_to_game jwt game_id player_id s)) game_id \<le> 5"
    by simp
qed

text \<open>The theorem at a concrete input.\<close>

theorem game_full_boundary_witness:
  "Player_objects_get (\<lambda>p. player_pk p = 5) cup4 \<noteq> None \<and>
   Game_objects_get (\<lambda>g. game_pk g = 1) cup4 \<noteq> None \<and>
   players_count cup4 1 = 4 \<and>
   AddingPlayerInGame_errors cup4 1 5 \<noteq> [GameFull] \<and>
   players_count (snd (post_add_player_to_game True 1 5 cup4)) 1 = 5"
proof -
  have p: "Player_objects_get (\<lambda>p. player_pk p = 5) cup4 \<noteq> None"
    by (simp add: cup4_def schema_defs)
  have g: "Game_objects_get (\<lambda>g. game_pk g = 1) cup4 \<noteq> None"
    by (simp add: cup4_def schema_defs)
  have c: "players_count cup4 1 = 4"
    by (simp add: cup4_def schema_defs)
  have ok: "fst (post_add_player_to_game True 1 5 cup4) = Success 1"
    by (simp add: cup4_def schema_defs route_defs)
  from game_full_boundary [OF p g, of True] show ?thesis
    by (simp add: p g c ok)
qed

subsection \<open>C3\<close>

text \<open>
  Claim C3. From a store in which every game has at most 5 members and no player
  twice, after each request of any sequence of requests (accepted or refused) every
  game still has at most 5 members and no player twice.
\<close>

theorem member_sets_bounded:
  "members_ok s \<Longrightarrow>
   \<forall>n \<le> length rs. \<forall>gpk.
     players_count (serve (take n rs) s) gpk \<le> 5 \<and> distinct (players_pks (serve (take n rs) s) gpk)"
  using members_ok_serve [of s] by (simp add: members_ok_iff)

text \<open>The theorem at a concrete input.\<close>

theorem member_sets_bounded_witness:
  "members_ok cup4 \<and>
   players_count (serve [(True, 10, AddMemberToGame 1 5), (True, 11, AddMemberToGame 1 6)] cup4) 1 \<le> 5 \<and>
   distinct (players_pks (serve [(True, 10, AddMemberToGame 1 5), (True, 11, AddMemberToGame 1 6)] cup4) 1)"
proof -
  have ok: "members_ok cup4"
    by (simp add: members_ok_def cup4_def schema_defs)
  have "(2::nat) \<le> length [(True, 10::nat, AddMemberToGame 1 5), (True, 11, AddMemberToGame 1 6)]"
    by simp
  with member_sets_bounded [OF ok, of "[(True, 10, AddMemberToGame 1 5), (True, 11, AddMemberToGame 1 6)]"]
  have "players_count (serve (take 2 [(True, 10, AddMemberToGame 1 5), (True, 11, AddMemberToGame 1 6)]) cup4) 1 \<le> 5 \<and>
        distinct (players_pks (serve (take 2 [(True, 10, AddMemberToGame 1 5), (True, 11, AddMemberToGame 1 6)]) cup4) 1)"
    by blast
  with ok show ?thesis by simp
qed

subsection \<open>C4\<close>

text \<open>
  Claim C4, as amended. A request to add a member that passes the schema and comes
  with a valid principal adds the player to the members of the game, answers with
  the primary key of the game, and leaves the rows of the games, their
  \<open>updated_at\<close> included, as they were.
\<close>

theorem add_member_success:
  assumes "AddingPlayerInGame_errors s game_id player_id = []"
  shows "post_add_player_to_game True game_id player_id s =
           (Success game_id, s\<lparr>game_players := game_players s @ [(game_id, player_id)]\<rparr>) \<and>
         players_pks (snd (post_add_player_to_game True game_id player_id s)) game_id =
           players_pks s game_id @ [player_id] \<and>
         games (snd (post_add_player_to_game True game_id player_id s)) = games s"
  using assms
  by (simp add: post_add_player_to_game_accepted add_player_to_game_adds players_pks_append)

text \<open>The theorem at a concrete input.\<close>

theorem add_member_success_witness:
  "AddingPlayerInGame_errors cup4 1 5 = [] \<and>
   post_add_player_to_game True 1 5 cup4 = (Success 1, cup5)"
proof -
  have h: "AddingPlayerInGame_errors cup4 1 5 = []"
    by (simp add: cup4_def schema_defs)
  from add_member_success [OF h] show ?thesis
    by (simp add: h cup5_def)
qed

text \<open>
  Claim C4 as stated fails: the game of the example was saved at time 6; a member
  added at time 99 leaves its \<open>updated_at\<close> at 6.
\<close>

theorem add_member_keeps_updated_at:
  "validation_errors cup4 (AddMemberToGame 1 5) = [] \<and>
   fst (request True 99 (AddMemberToGame 1 5) cup4) = Success 1 \<and>
   map game_updated_at (games (snd (request True 99 (AddMemberToGame 1 5) cup4))) = [6]"
  by (simp add: cup4_def schema_defs route_defs)

subsection \<open>C5\<close>

text \<open>
  Claim C5, as amended. For a name and an email of at most 54 characters: the name is
  refused with \<open>InvalidNameCharset\<close> when it has a character outside \<open>0-9a-f\<close>
  (whether or not a player has that name), and otherwise with \<open>DuplicateName\<close> when
  a player has that name; the email is refused with \<open>InvalidEmailFormat\<close> when it
  does not match the pattern (whether or not a player has that email), and otherwise
  with \<open>DuplicateEmail\<close> when a player has that email; the reasons of both fields
  are returned together and nothing is written.
\<close>

theorem create_player_checks:
  assumes "length name \<le> 54" and "length email \<le> 54"
  shows "CreatePlayerItem_errors s name email =
           (if \<not> set name \<subseteq> allowed_chars then [InvalidNameCharset]
            else if Player_objects_get (\<lambda>p. player_name p = name) s \<noteq> None then [DuplicateName]
            else []) @
           (if \<not> re_match pattern email then [InvalidEmailFormat]
            else if Player_objects_get (\<lambda>p. player_email p = email) s \<noteq> None then [DuplicateEmail]
            else []) \<and>
         (CreatePlayerItem_errors s name email \<noteq> [] \<longrightarrow>
            post_new_player jwt now name email s =
              (validation_exception_handler (CreatePlayerItem_errors s name email), s))"
  using assms
  by (simp add: CreatePlayerItem_errors_def name_field_eq email_field_eq
        Player_objects_get_name Player_objects_get_email post_new_player_rejected)

text \<open>The theorem at a concrete input.\<close>

theorem create_player_checks_witness:
  "length ''deadbeef'' \<le> 54 \<and> length ''c@d.com'' \<le> 54 \<and>
   post_new_player True 2 ''deadbeef'' ''c@d.com''
       (snd (post_new_player True 1 ''deadbeef'' ''a@b.com'' empty_store)) =
     (validation_exception_handler [DuplicateName],
      snd (post_new_player True 1 ''deadbeef'' ''a@b.com'' empty_store))"
  using create_player_checks [of "''deadbeef''" "''c@d.com''"
      "snd (post_new_player True 1 ''deadbeef'' ''a@b.com'' empty_store)" True 2]
  by (simp add: empty_store_def schema_defs route_defs)

text \<open>
  Claim C5 as stated fails: a name of 55 characters \<open>g\<close> has a character outside
  \<open>0-9a-f\<close>, and is refused for its length, not with \<open>InvalidNameCharset\<close>.
\<close>

theorem long_name_not_charset:
  "\<not> set (replicate 55 (CHR ''g'')) \<subseteq> allowed_chars \<and>
   CreatePlayerItem_errors empty_store (replicate 55 (CHR ''g'')) ''a@b.com'' = [NameTooLong] \<and>
   fst (post_new_player True 0 (replicate 55 (CHR ''g'')) ''a@b.com'' empty_store) =
     validation_exception_handler [NameTooLong] \<and>
   validation_exception_handler [NameTooLong] \<noteq> validation_exception_handler [InvalidNameCharset]"
  by (simp add: empty_store_def schema_defs route_defs)

subsection \<open>C6\<close>




subsection \<open>C7\<close>



subsection \<open>C8\<close>

text \<open>
  Claim C8, on two requests that overlap: both bodies pass the schema on the store
  they find, then each function of the route runs. For two players of the same name
  the second save breaks the unique column and the request ends in a server error
  and not in \<open>DuplicateName\<close>; for two additions to a game of 4 members both succeed
  and the game has 6 members.
\<close>

theorem racing_requests:
  "CreatePlayerItem empty_store ''ab'' ''a@b.com'' = Inr (''ab'', ''a@b.com'') \<and>
   CreatePlayerItem empty_store ''ab'' ''c@d.com'' = Inr (''ab'', ''c@d.com'') \<and>
   fst (create_new_player True 1 (''ab'', ''a@b.com'') empty_store) = Success 1 \<and>
   fst (create_new_player True 2 (''ab'', ''c@d.com'')
          (snd (create_new_player True 1 (''ab'', ''a@b.com'') empty_store))) =
     Internal_Server_Error \<and>
   AddingPlayerInGame cup4 1 5 = Inr (1, 5) \<and>
   AddingPlayerInGame cup4 1 6 = Inr (1, 6) \<and>
   fst (add_player_to_game True (1, 5) cup4) = Success 1 \<and>
   fst (add_player_to_game True (1, 6) (snd (add_player_to_game True (1, 5) cup4))) = Success 1 \<and>
   players_count (snd (add_player_to_game True (1, 6) (snd (add_player_to_game True (1, 5) cup4)))) 1 = 6"
  by (simp add: empty_store_def cup4_def schema_defs route_defs)

subsection \<open>C9\<close>

text \<open>
  Claim C9, as amended. After a request to add a member has succeeded, the same
  request again, with or without a valid principal, is refused and leaves the store
  as it was; the reason is \<open>AlreadyMember\<close> when the game had fewer than 4 members
  before the first request, and \<open>GameFull\<close> when it had 4.
\<close>

theorem second_add_rejected:
  assumes "fst (post_add_player_to_game jwt game_id player_id s) = Success game_id"
  shows "post_add_player_to_game jwt' game_id player_id
           (snd (post_add_player_to_game jwt game_id player_id s)) =
         (validation_exception_handler
            [if players_count s game_id = 4 then GameFull else AlreadyMember],
          snd (post_add_player_to_game jwt game_id player_id s))"
proof -
  from assms have nil: "AddingPlayerInGame_errors s game_id player_id = []" and jwt: jwt
    by (auto dest: post_add_player_to_game_Success)
  let ?s' = "s\<lparr>game_players := game_players s @ [(game_id, player_id)]\<rparr>"
  from nil jwt have s': "snd (post_add_player_to_game jwt game_id player_id s) = ?s'"
    by (simp add: post_add_player_to_game_accepted add_player_to_game_adds)
  from nil have p: "Player_objects_get (\<lambda>p. player_pk p = player_id) s \<noteq> None"
    and g: "Game_objects_get (\<lambda>g. game_pk g = game_id) s \<noteq> None"
    and room: "players_count s game_id \<le> 4"
    by (simp_all add: AddingPlayerInGame_errors_Nil Player_objects_get_pk)
  have p': "Player_objects_get (\<lambda>p. player_pk p = player_id) ?s' =
      Player_objects_get (\<lambda>p. player_pk p = player_id) s"
    by (simp add: Player_objects_get_def)
  have g': "Game_objects_get (\<lambda>g. game_pk g = game_id) ?s' =
      Game_objects_get (\<lambda>g. game_pk g = game_id) s"
    by (simp add: Game_objects_get_def)
  have c': "players_count ?s' game_id = players_count s game_id + 1"
    by (simp add: players_count_def players_pks_append)
  have m': "player_id \<in> set (players_pks ?s' game_id)"
    by (simp add: players_pks_append)
  from p g room have "AddingPlayerInGame_errors ?s' game_id player_id =
      [if players_count s game_id = 4 then GameFull else AlreadyMember]"
    unfolding AddingPlayerInGame_errors_eq p' g' c' using m' by auto
  then show ?thesis
    unfolding s' by (simp add: post_add_player_to_game_rejected)
qed

text \<open>The theorem at a concrete input.\<close>

theorem second_add_rejected_witness:
  "fst (post_add_player_to_game True 1 5 cup4) = Success 1 \<and>
   post_add_player_to_game False 1 5 (snd (post_add_player_to_game True 1 5 cup4)) =
     (validation_exception_handler [GameFull], snd (post_add_player_to_game True 1 5 cup4))"
proof -
  have h: "fst (post_add_player_to_game True 1 5 cup4) = Success 1"
    by (simp add: cup4_def schema_defs route_defs)
  have c: "players_count cup4 1 = 4"
    by (simp add: cup4_def schema_defs)
  from second_add_rejected [OF h, of False] show ?thesis
    by (simp add: h c)
qed

text \<open>
  Claim C9 as stated fails: the fifth member of a game is added, and the same request
  again is refused with \<open>GameFull\<close>, not with \<open>AlreadyMember\<close>.
\<close>

theorem second_add_game_full:
  "fst (post_add_player_to_game True 1 5 cup4) = Success 1 \<and>
   fst (post_add_player_to_game True 1 5 (snd (post_add_player_to_game True 1 5 cup4))) =
     validation_exception_handler [GameFull] \<and>
   validation_exception_handler [GameFull] \<noteq> validation_exception_handler [AlreadyMember]"
  by (simp add: cup4_def schema_defs route_defs)

subsection \<open>C10\<close>

text \<open>
  Claim C10. The empty name passes the check of the characters, it is never refused
  with \<open>InvalidNameCharset\<close>, and a request with a valid principal to create a
  player with the empty name succeeds whenever no player has the empty name and
  the email passes its checks.
\<close>

theorem empty_name_accepted:
  "set [] \<subseteq> allowed_chars \<and>
   InvalidNameCharset \<notin> set (CreatePlayerItem_errors s [] email) \<and>
   (Player_objects_get (\<lambda>p. player_name p = []) s = None \<and> email_field s email = Inr email \<longrightarrow>
      fst (post_new_player True now [] email s) = Success (next_player_pk s) \<and>
      map player_name (players (snd (post_new_player True now [] email s))) =
        map player_name (players s) @ [[]])"
proof (intro conjI impI)
  show "set [] \<subseteq> allowed_chars" by simp
  show "InvalidNameCharset \<notin> set (CreatePlayerItem_errors s [] email)"
    by (simp add: CreatePlayerItem_errors_def name_field_eq email_field_eq)
next
  assume a: "Player_objects_get (\<lambda>p. player_name p = []) s = None \<and> email_field s email = Inr email"
  then have n: "name_field s [] = Inr []"
    by (simp add: name_field_eq Player_objects_get_name)
  with a have nil: "CreatePlayerItem_errors s [] email = []"
    by (simp add: CreatePlayerItem_errors_Nil)
  from a n show "fst (post_new_player True now [] email s) = Success (next_player_pk s)"
    by (simp add: post_new_player_accepted [OF nil] create_new_player_saves)
  from a n show "map player_name (players (snd (post_new_player True now [] email s))) =
        map player_name (players s) @ [[]]"
    by (simp add: post_new_player_accepted [OF nil] create_new_player_saves)
qed

text \<open>The theorem at a concrete input.\<close>

theorem empty_name_accepted_witness:
  "Player_objects_get (\<lambda>p. player_name p = []) cup4 = None \<and>
   email_field cup4 ''a@b.com'' = Inr ''a@b.com'' \<and>
   fst (post_new_player True 10 [] ''a@b.com'' cup4) = Success 7"
proof -
  have h: "Player_objects_get (\<lambda>p. player_name p = []) cup4 = None \<and>
      email_field cup4 ''a@b.com'' = Inr ''a@b.com''"
    by (simp add: cup4_def schema_defs)
  have n: "next_player_pk cup4 = 7" by (simp add: cup4_def)
  from empty_name_accepted [of cup4 "''a@b.com''" 10] h show ?thesis
    by (simp add: n)
qed

end
